theory Spec2Isabelle
  imports Main
begin

section \<open>Data model\<close>

text \<open>
  The rows of the three tables (\<open>types.ts\<close>: \<open>DeviceSchema\<close>, \<open>AuditorySchema\<close>,
  \<open>BookingSchema\<close>; the migration adds \<open>deviceId\<close>, \<open>auditoryId\<close>, \<open>endTime\<close> and
  \<open>startTime\<close> to \<open>Booking\<close>). Timestamps are milliseconds since the epoch, the value a
  JavaScript \<open>Date\<close> holds; a column of type \<open>TIMESTAMP(3)\<close> always holds a valid one.
\<close>

record device =
  device_id :: string
  device_name :: string

record auditory =
  auditory_id :: string
  auditory_name :: string
  capacity :: int

record booking =
  booking_id :: string
  deviceId :: string
  auditoryId :: string
  startTime :: int
  endTime :: int

text \<open>The database behind \<open>app.prisma\<close>: one list of rows per table.\<close>

record db =
  devices :: "device list"
  auditories :: "auditory list"
  bookings :: "booking list"

text \<open>
  A JavaScript \<open>Date\<close> object: a time value, or the invalid date (time value \<open>NaN\<close>) that
  \<open>new Date(s)\<close> gives for a string it cannot parse, the empty string included.
\<close>

datatype jsdate = Date int | InvalidDate

text \<open>
  \<open>endAt <= now\<close> on two \<open>Date\<close> objects compares their time values as numbers; every
  comparison with \<open>NaN\<close> is false. \<open>now\<close> comes from \<open>new Date()\<close> and is always valid.
\<close>

definition date_le :: "jsdate \<Rightarrow> int \<Rightarrow> bool" where
  "date_le d now = (case d of Date t \<Rightarrow> t \<le> now | InvalidDate \<Rightarrow> False)"

text \<open>The request bodies (\<open>CreateBookingSchema\<close>, \<open>UpdateBookingSchema\<close>,
  \<open>UpdateDeviceSchema\<close>, \<open>UpdateAuditorySchema\<close>); an optional property that is absent is
  \<open>None\<close>.\<close>

record create_body =
  c_deviceId :: string
  c_auditoryId :: string
  c_endTime :: string

record update_body =
  u_deviceId :: "string option"
  u_auditoryId :: "string option"
  u_endTime :: "string option"

record update_device_body =
  ud_name :: "string option"

record update_auditory_body =
  ua_name :: "string option"
  ua_capacity :: "int option"

text \<open>JavaScript truthiness of an optional string: \<open>undefined\<close> and \<open>""\<close> are falsy.\<close>

definition truthy :: "string option \<Rightarrow> bool" where
  "truthy s = (case s of None \<Rightarrow> False | Some x \<Rightarrow> x \<noteq> [])"

text \<open>\<open>a || b\<close> on an optional string and a string.\<close>

definition or_else :: "string option \<Rightarrow> string \<Rightarrow> string" where
  "or_else s d = (case s of None \<Rightarrow> d | Some x \<Rightarrow> if x = [] then d else x)"

section \<open>Errors and the runtime\<close>

text \<open>
  The errors the Prisma client throws here: an invalid \<open>Date\<close> passed as data (client-side
  validation), a missing row for \<open>update\<close>/\<open>delete\<close> (P2025), a violated foreign key
  (P2003), a violated primary key (P2002). None of them carries a \<open>statusCode\<close>.
\<close>

datatype prisma_error = PrismaValidation | P2025 | P2003 | P2002

text \<open>
  What the handlers take from the JavaScript runtime and from libraries, as parameters:
  the \<open>Date\<close> constructor on a string, \<open>Date.prototype.toLocaleTimeString\<close>, and the
  message text of a Prisma error.
\<close>

record env =
  new_Date :: "string \<Rightarrow> jsdate"
  toLocaleTimeString :: "int \<Rightarrow> string"
  prisma_message :: "prisma_error \<Rightarrow> string"

text \<open>An error object as the error handler reads it.\<close>

record js_error =
  statusCode :: "nat option"
  message :: string
  isValidationProblem :: bool

definition prisma_throw :: "env \<Rightarrow> prisma_error \<Rightarrow> js_error" where
  "prisma_throw e err =
     \<lparr>statusCode = None, message = prisma_message e err, isValidationProblem = False\<rparr>"

section \<open>Replies\<close>

record problem =
  problem_type :: string
  problem_title :: string
  problem_status :: nat
  problem_detail :: string
  problem_instance :: string
  errorsText :: "string option"

datatype payload =
    ProblemJson problem
  | BookingJson booking "device option" "auditory option"
  | DeviceJson device
  | AuditoryJson auditory
  | NoContent

text \<open>\<open>ctype\<close> is the content type the handler sets with \<open>reply.type\<close>, \<open>None\<close> when it
  leaves the framework's default.\<close>

record reply =
  code :: nat
  ctype :: "string option"
  payload :: payload

text \<open>The entries of Node's \<open>http.STATUS_CODES\<close> for the statuses this API documents.\<close>

definition STATUS_CODES :: "nat \<Rightarrow> string option" where
  "STATUS_CODES s =
     (if s = 400 then Some ''Bad Request''
      else if s = 404 then Some ''Not Found''
      else if s = 409 then Some ''Conflict''
      else if s = 429 then Some ''Too Many Requests''
      else if s = 500 then Some ''Internal Server Error''
      else if s = 503 then Some ''Service Unavailable''
      else None)"

text \<open>\<open>app.setErrorHandler\<close>: the reply for an error thrown out of a handler.\<close>

definition setErrorHandler :: "js_error \<Rightarrow> string \<Rightarrow> reply" where
  "setErrorHandler err url =
     (let status = (case statusCode err of Some n \<Rightarrow> n | None \<Rightarrow> 500);
          isValidation = isValidationProblem err
      in \<lparr>code = status, ctype = Some ''application/problem+json'',
          payload = ProblemJson
            \<lparr>problem_type = ''about:blank'',
             problem_title = (case STATUS_CODES status of Some t \<Rightarrow> t | None \<Rightarrow> ''Error''),
             problem_status = status,
             problem_detail = (if message err = [] then ''Unexpected error'' else message err),
             problem_instance = url,
             errorsText = (if isValidation then Some (message err) else None)\<rparr>\<rparr>)"

text \<open>The problem document the booking handlers send themselves.\<close>

definition problem_reply :: "nat \<Rightarrow> string \<Rightarrow> string \<Rightarrow> string \<Rightarrow> reply" where
  "problem_reply st ttl det url =
     \<lparr>code = st, ctype = Some ''application/problem+json'',
      payload = ProblemJson
        \<lparr>problem_type = ''about:blank'', problem_title = ttl, problem_status = st,
         problem_detail = det, problem_instance = url, errorsText = None\<rparr>\<rparr>"

text \<open>
  The three Russian detail texts of the booking handlers, as their UTF-8 bytes:
  "end time must be in the future", "booking not found", and the prefix
  "auditory is busy until " (with its trailing space).
\<close>

definition end_must_be_future :: string where
  "end_must_be_future =
    [CHR 0xD0, CHR 0x92, CHR 0xD1, CHR 0x80, CHR 0xD0, CHR 0xB5, CHR 0xD0, CHR 0xBC,
     CHR 0xD1, CHR 0x8F, CHR 0x20, CHR 0xD0, CHR 0xBE, CHR 0xD0, CHR 0xBA, CHR 0xD0,
     CHR 0xBE, CHR 0xD0, CHR 0xBD, CHR 0xD1, CHR 0x87, CHR 0xD0, CHR 0xB0, CHR 0xD0,
     CHR 0xBD, CHR 0xD0, CHR 0xB8, CHR 0xD1, CHR 0x8F, CHR 0x20, CHR 0xD0, CHR 0xB4,
     CHR 0xD0, CHR 0xBE, CHR 0xD0, CHR 0xBB, CHR 0xD0, CHR 0xB6, CHR 0xD0, CHR 0xBD,
     CHR 0xD0, CHR 0xBE, CHR 0x20, CHR 0xD0, CHR 0xB1, CHR 0xD1, CHR 0x8B, CHR 0xD1,
     CHR 0x82, CHR 0xD1, CHR 0x8C, CHR 0x20, CHR 0xD0, CHR 0xB2, CHR 0x20, CHR 0xD0,
     CHR 0xB1, CHR 0xD1, CHR 0x83, CHR 0xD0, CHR 0xB4, CHR 0xD1, CHR 0x83, CHR 0xD1,
     CHR 0x89, CHR 0xD0, CHR 0xB5, CHR 0xD0, CHR 0xBC]"

definition booking_not_found :: string where
  "booking_not_found =
    [CHR 0xD0, CHR 0x91, CHR 0xD1, CHR 0x80, CHR 0xD0, CHR 0xBE, CHR 0xD0, CHR 0xBD,
     CHR 0xD0, CHR 0xB8, CHR 0xD1, CHR 0x80, CHR 0xD0, CHR 0xBE, CHR 0xD0, CHR 0xB2,
     CHR 0xD0, CHR 0xB0, CHR 0xD0, CHR 0xBD, CHR 0xD0, CHR 0xB8, CHR 0xD0, CHR 0xB5,
     CHR 0x20, CHR 0xD0, CHR 0xBD, CHR 0xD0, CHR 0xB5, CHR 0x20, CHR 0xD0, CHR 0xBD,
     CHR 0xD0, CHR 0xB0, CHR 0xD0, CHR 0xB9, CHR 0xD0, CHR 0xB4, CHR 0xD0, CHR 0xB5,
     CHR 0xD0, CHR 0xBD, CHR 0xD0, CHR 0xBE]"

definition busy_until :: string where
  "busy_until =
    [CHR 0xD0, CHR 0x90, CHR 0xD1, CHR 0x83, CHR 0xD0, CHR 0xB4, CHR 0xD0, CHR 0xB8,
     CHR 0xD1, CHR 0x82, CHR 0xD0, CHR 0xBE, CHR 0xD1, CHR 0x80, CHR 0xD0, CHR 0xB8,
     CHR 0xD1, CHR 0x8F, CHR 0x20, CHR 0xD0, CHR 0xB7, CHR 0xD0, CHR 0xB0, CHR 0xD0,
     CHR 0xBD, CHR 0xD1, CHR 0x8F, CHR 0xD1, CHR 0x82, CHR 0xD0, CHR 0xB0, CHR 0x20,
     CHR 0xD0, CHR 0xB4, CHR 0xD0, CHR 0xBE, CHR 0x20]"

section \<open>The Prisma operations the handlers call\<close>

definition device_findUnique :: "db \<Rightarrow> string \<Rightarrow> device option" where
  "device_findUnique d i = find (\<lambda>x. device_id x = i) (devices d)"

definition auditory_findUnique :: "db \<Rightarrow> string \<Rightarrow> auditory option" where
  "auditory_findUnique d i = find (\<lambda>x. auditory_id x = i) (auditories d)"

definition booking_findUnique :: "db \<Rightarrow> string \<Rightarrow> booking option" where
  "booking_findUnique d i = find (\<lambda>b. booking_id b = i) (bookings d)"

definition booking_findFirst :: "db \<Rightarrow> (booking \<Rightarrow> bool) \<Rightarrow> booking option" where
  "booking_findFirst d P = find P (bookings d)"

text \<open>
  \<open>booking.create\<close> with \<open>data: {deviceId, auditoryId, endTime}\<close> and both relations
  included. The data carries no \<open>startTime\<close> and no \<open>id\<close>: the row's \<open>startTime\<close> is the
  column default \<open>CURRENT_TIMESTAMP\<close>, read by the store when it inserts (\<open>ts\<close>), and
  its key is generated (\<open>newId\<close>). An invalid date is refused by the client; both foreign
  keys must reference existing rows and the key must be new.
\<close>

definition booking_create ::
  "db \<Rightarrow> string \<Rightarrow> int \<Rightarrow> string \<Rightarrow> string \<Rightarrow> jsdate
     \<Rightarrow> prisma_error + ((booking \<times> device \<times> auditory) \<times> db)" where
  "booking_create d newId ts dev aud endAt =
     (case endAt of
        InvalidDate \<Rightarrow> Inl PrismaValidation
      | Date t \<Rightarrow>
          (case device_findUnique d dev of
             None \<Rightarrow> Inl P2003
           | Some dv \<Rightarrow>
               (case auditory_findUnique d aud of
                  None \<Rightarrow> Inl P2003
                | Some au \<Rightarrow>
                    if booking_findUnique d newId \<noteq> None then Inl P2002
                    else
                      (let b = \<lparr>booking_id = newId, deviceId = dev, auditoryId = aud,
                                startTime = ts, endTime = t\<rparr>
                       in Inr ((b, dv, au), d\<lparr>bookings := bookings d @ [b]\<rparr>)))))"

text \<open>The \<open>data\<close> object \<open>updateBooking\<close> builds: a property is present or not.\<close>

record booking_data =
  data_deviceId :: "string option"
  data_auditoryId :: "string option"
  data_endTime :: "jsdate option"

definition apply_data :: "booking_data \<Rightarrow> booking \<Rightarrow> booking" where
  "apply_data dt b =
     b\<lparr>deviceId := (case data_deviceId dt of Some x \<Rightarrow> x | None \<Rightarrow> deviceId b),
       auditoryId := (case data_auditoryId dt of Some x \<Rightarrow> x | None \<Rightarrow> auditoryId b),
       endTime := (case data_endTime dt of Some (Date t) \<Rightarrow> t | _ \<Rightarrow> endTime b)\<rparr>"

definition fk_ok :: "db \<Rightarrow> booking_data \<Rightarrow> bool" where
  "fk_ok d dt =
     ((case data_deviceId dt of None \<Rightarrow> True | Some x \<Rightarrow> device_findUnique d x \<noteq> None) \<and>
      (case data_auditoryId dt of None \<Rightarrow> True | Some x \<Rightarrow> auditory_findUnique d x \<noteq> None))"

text \<open>
  \<open>booking.update\<close> by id with both relations included: only the properties present in
  \<open>data\<close> are written, to the row with that key.
\<close>

definition booking_update ::
  "db \<Rightarrow> string \<Rightarrow> booking_data
     \<Rightarrow> prisma_error + ((booking \<times> device option \<times> auditory option) \<times> db)" where
  "booking_update d i dt =
     (if data_endTime dt = Some InvalidDate then Inl PrismaValidation
      else
        (case booking_findUnique d i of
           None \<Rightarrow> Inl P2025
         | Some b \<Rightarrow>
             if \<not> fk_ok d dt then Inl P2003
             else
               (let b' = apply_data dt b
                in Inr ((b', device_findUnique d (deviceId b'),
                             auditory_findUnique d (auditoryId b')),
                        d\<lparr>bookings :=
                            map (\<lambda>x. if booking_id x = i then b' else x) (bookings d)\<rparr>))))"

definition booking_delete :: "db \<Rightarrow> string \<Rightarrow> prisma_error + db" where
  "booking_delete d i =
     (case booking_findUnique d i of
        None \<Rightarrow> Inl P2025
      | Some b \<Rightarrow> Inr (d\<lparr>bookings := filter (\<lambda>x. booking_id x \<noteq> i) (bookings d)\<rparr>))"

definition device_update :: "db \<Rightarrow> string \<Rightarrow> update_device_body \<Rightarrow> prisma_error + (device \<times> db)" where
  "device_update d i body =
     (case device_findUnique d i of
        None \<Rightarrow> Inl P2025
      | Some dv \<Rightarrow>
          (let dv' = dv\<lparr>device_name := (case ud_name body of Some n \<Rightarrow> n | None \<Rightarrow> device_name dv)\<rparr>
           in Inr (dv', d\<lparr>devices := map (\<lambda>x. if device_id x = i then dv' else x) (devices d)\<rparr>)))"

definition auditory_update ::
  "db \<Rightarrow> string \<Rightarrow> update_auditory_body \<Rightarrow> prisma_error + (auditory \<times> db)" where
  "auditory_update d i body =
     (case auditory_findUnique d i of
        None \<Rightarrow> Inl P2025
      | Some au \<Rightarrow>
          (let au' = au\<lparr>auditory_name := (case ua_name body of Some n \<Rightarrow> n | None \<Rightarrow> auditory_name au),
                        capacity := (case ua_capacity body of Some c \<Rightarrow> c | None \<Rightarrow> capacity au)\<rparr>
           in Inr (au', d\<lparr>auditories := map (\<lambda>x. if auditory_id x = i then au' else x) (auditories d)\<rparr>)))"

section \<open>The handlers\<close>

text \<open>
  Each handler takes what it reads from outside the request (the clock value of
  \<open>new Date()\<close>, and for an insert the store's timestamp and the generated key), the request
  (\<open>req.url\<close>, the path parameter, the body) and the database, and returns the reply and the
  database after it.
\<close>

text \<open>\<open>POST /api/bookings\<close>.\<close>

definition createBooking ::
  "env \<Rightarrow> int \<Rightarrow> int \<Rightarrow> string \<Rightarrow> string \<Rightarrow> create_body \<Rightarrow> db \<Rightarrow> reply \<times> db" where
  "createBooking e now ts newId url body d =
     (let dev = c_deviceId body; aud = c_auditoryId body;
          endAt = new_Date e (c_endTime body)
      in if date_le endAt now
         then (problem_reply 400 ''Bad Request'' end_must_be_future url, d)
         else
           (case booking_findFirst d (\<lambda>b. auditoryId b = aud \<and> now < endTime b) of
              Some activeBooking \<Rightarrow>
                (problem_reply 409 ''Conflict''
                   (busy_until @ toLocaleTimeString e (endTime activeBooking)) url, d)
            | None \<Rightarrow>
                (case booking_create d newId ts dev aud endAt of
                   Inl err \<Rightarrow> (setErrorHandler (prisma_throw e err) url, d)
                 | Inr ((b, dv, au), d') \<Rightarrow>
                     (\<lparr>code = 201, ctype = None,
                       payload = BookingJson b (Some dv) (Some au)\<rparr>, d'))))"

text \<open>
  \<open>PUT /api/bookings/:id\<close>. \<open>newEndAt\<close> is set only when \<open>endTime\<close> is truthy; it is
  then a \<open>Date\<close> object, which is truthy even when invalid. \<open>rejects_endTime\<close> is the
  test \<open>endTime && newEndAt <= now\<close> that sends the 400. The handler also computes
  \<open>targetEndAt\<close> and never reads it; it is left out.
\<close>

definition newEndAt_of :: "env \<Rightarrow> update_body \<Rightarrow> jsdate option" where
  "newEndAt_of e body =
     (case u_endTime body of
        None \<Rightarrow> None
      | Some s \<Rightarrow> if s = [] then None else Some (new_Date e s))"

definition rejects_endTime :: "env \<Rightarrow> int \<Rightarrow> update_body \<Rightarrow> bool" where
  "rejects_endTime e now body =
     (case newEndAt_of e body of Some dt \<Rightarrow> date_le dt now | None \<Rightarrow> False)"

definition updateBooking ::
  "env \<Rightarrow> int \<Rightarrow> string \<Rightarrow> string \<Rightarrow> update_body \<Rightarrow> db \<Rightarrow> reply \<times> db" where
  "updateBooking e now url i body d =
     (let newEndAt = newEndAt_of e body
      in if rejects_endTime e now body
         then (problem_reply 400 ''Bad Request'' end_must_be_future url, d)
         else
           (case booking_findUnique d i of
              None \<Rightarrow> (problem_reply 404 ''Not Found'' booking_not_found url, d)
            | Some booking \<Rightarrow>
                (let targetAuditoryId = or_else (u_auditoryId body) (auditoryId booking);
                     conflicting =
                       (if truthy (u_auditoryId body) \<or> truthy (u_endTime body)
                        then booking_findFirst d
                               (\<lambda>b. auditoryId b = targetAuditoryId \<and> now < endTime b
                                      \<and> booking_id b \<noteq> i)
                        else None)
                 in (case conflicting of
                       Some c \<Rightarrow>
                         (problem_reply 409 ''Conflict''
                            (busy_until @ toLocaleTimeString e (endTime c)) url, d)
                     | None \<Rightarrow>
                         (let dt = \<lparr>data_deviceId =
                                      (if truthy (u_deviceId body) then u_deviceId body else None),
                                    data_auditoryId =
                                      (if truthy (u_auditoryId body) then u_auditoryId body else None),
                                    data_endTime = newEndAt\<rparr>
                          in (case booking_update d i dt of
                                Inl err \<Rightarrow> (setErrorHandler (prisma_throw e err) url, d)
                              | Inr ((b', dv, au), d') \<Rightarrow>
                                  (\<lparr>code = 200, ctype = None,
                                    payload = BookingJson b' dv au\<rparr>, d')))))))"

text \<open>\<open>DELETE /api/bookings/:id\<close>.\<close>

definition deleteBooking :: "env \<Rightarrow> string \<Rightarrow> string \<Rightarrow> db \<Rightarrow> reply \<times> db" where
  "deleteBooking e url i d =
     (case booking_delete d i of
        Inl err \<Rightarrow> (setErrorHandler (prisma_throw e err) url, d)
      | Inr d' \<Rightarrow> (\<lparr>code = 204, ctype = None, payload = NoContent\<rparr>, d'))"

text \<open>\<open>PUT /api/devices/:id\<close> and \<open>PUT /api/auditories/:id\<close>, on a body that passed the
  route's schema.\<close>

definition updateDevice :: "env \<Rightarrow> string \<Rightarrow> string \<Rightarrow> update_device_body \<Rightarrow> db \<Rightarrow> reply \<times> db" where
  "updateDevice e url i body d =
     (case device_update d i body of
        Inl err \<Rightarrow> (setErrorHandler (prisma_throw e err) url, d)
      | Inr (updated, d') \<Rightarrow> (\<lparr>code = 200, ctype = None, payload = DeviceJson updated\<rparr>, d'))"

definition updateAuditory ::
  "env \<Rightarrow> string \<Rightarrow> string \<Rightarrow> update_auditory_body \<Rightarrow> db \<Rightarrow> reply \<times> db" where
  "updateAuditory e url i body d =
     (case auditory_update d i body of
        Inl err \<Rightarrow> (setErrorHandler (prisma_throw e err) url, d)
      | Inr (updated, d') \<Rightarrow> (\<lparr>code = 200, ctype = None, payload = AuditoryJson updated\<rparr>, d'))"

section \<open>Sequences of booking operations\<close>

text \<open>
  One request to a booking route, with what its handler reads from outside: \<open>Create\<close>
  carries the handler's \<open>now\<close>, the store's insertion timestamp and the generated key;
  \<open>Update\<close> carries the handler's \<open>now\<close>; \<open>Delete\<close> reads no clock.
\<close>

datatype op =
    Create int int string string create_body
  | Update int string string update_body
  | Delete string string

fun step :: "env \<Rightarrow> db \<Rightarrow> op \<Rightarrow> db" where
  "step e d (Create now ts newId url body) = snd (createBooking e now ts newId url body d)"
| "step e d (Update now url i body) = snd (updateBooking e now url i body d)"
| "step e d (Delete url i) = snd (deleteBooking e url i d)"

text \<open>The requests are handled one at a time, each on the database the previous one left.\<close>

fun run :: "env \<Rightarrow> db \<Rightarrow> op list \<Rightarrow> db" where
  "run e d [] = d"
| "run e d (x # xs) = run e (step e d x) xs"

text \<open>The values of \<open>now\<close> the handlers sample, in the order of the requests.\<close>

fun op_nows :: "op list \<Rightarrow> int list" where
  "op_nows [] = []"
| "op_nows (Create now ts newId url body # xs) = now # op_nows xs"
| "op_nows (Update now url i body # xs) = now # op_nows xs"
| "op_nows (Delete url i # xs) = op_nows xs"

text \<open>The bookings of auditory \<open>a\<close> that are active at time \<open>t\<close>: \<open>endTime > t\<close>.\<close>

definition active :: "db \<Rightarrow> string \<Rightarrow> int \<Rightarrow> booking list" where
  "active d a t = filter (\<lambda>b. auditoryId b = a \<and> t < endTime b) (bookings d)"

section \<open>A concrete runtime and database for closed instances\<close>

text \<open>
  \<open>example_env\<close> parses two ISO strings to their epoch milliseconds and nothing else,
  and renders those instants as a UTC clock time. \<open>example_now\<close> is
  2026-11-02T00:00:00Z. \<open>example_db\<close> has one device, two auditories and no booking.
\<close>

definition example_env :: env where
  "example_env =
     \<lparr>new_Date = (\<lambda>s. if s = ''2030-01-01T00:00:00.000Z'' then Date 1893456000000
                      else if s = ''2000-01-01T00:00:00.000Z'' then Date 946684800000
                      else InvalidDate),
      toLocaleTimeString = (\<lambda>t. ''00:00:00''),
      prisma_message = (\<lambda>err. case err of
                           PrismaValidation \<Rightarrow> ''Invalid value provided''
                         | P2025 \<Rightarrow> ''Record not found''
                         | P2003 \<Rightarrow> ''Foreign key constraint failed''
                         | P2002 \<Rightarrow> ''Unique constraint failed'')\<rparr>"

definition example_now :: int where
  "example_now = 1793577600000"

definition example_db :: db where
  "example_db =
     \<lparr>devices = [\<lparr>device_id = ''d1'', device_name = ''projector''\<rparr>],
      auditories = [\<lparr>auditory_id = ''a1'', auditory_name = ''101'', capacity = 30\<rparr>,
                    \<lparr>auditory_id = ''a2'', auditory_name = ''102'', capacity = 20\<rparr>],
      bookings = []\<rparr>"

text \<open>A booking of auditory \<open>a1\<close> until 2030, and the database holding it.\<close>

definition example_booking :: booking where
  "example_booking =
     \<lparr>booking_id = ''b1'', deviceId = ''d1'', auditoryId = ''a1'',
      startTime = 1793577600005, endTime = 1893456000000\<rparr>"

definition example_db1 :: db where
  "example_db1 = example_db\<lparr>bookings := [example_booking]\<rparr>"

definition example_booking2 :: booking where
  "example_booking2 =
     \<lparr>booking_id = ''b2'', deviceId = ''d1'', auditoryId = ''a2'',
      startTime = 1793577600022, endTime = 1893456000000\<rparr>"

definition example_db2 :: db where
  "example_db2 = example_db\<lparr>bookings := [example_booking, example_booking2]\<rparr>"

text \<open>A booking of auditory \<open>a1\<close> that ended in 2000, in the table before the one until 2030.\<close>

definition example_expired :: booking where
  "example_expired =
     \<lparr>booking_id = ''b0'', deviceId = ''d1'', auditoryId = ''a1'',
      startTime = 946681200000, endTime = 946684800000\<rparr>"

definition example_db3 :: db where
  "example_db3 = example_db\<lparr>bookings := [example_expired, example_booking]\<rparr>"

text \<open>
  A sequence of requests: \<open>b1\<close> books \<open>a1\<close>; a second booking of \<open>a1\<close> is refused;
  \<open>b2\<close> books \<open>a2\<close>; moving \<open>b2\<close> to \<open>a1\<close> is refused; \<open>b1\<close> is deleted; \<open>b2\<close> moves to
  \<open>a1\<close>.
\<close>

definition example_ops :: "op list" where
  "example_ops =
     [Create example_now (example_now + 5) ''b1'' ''/api/bookings''
        \<lparr>c_deviceId = ''d1'', c_auditoryId = ''a1'', c_endTime = ''2030-01-01T00:00:00.000Z''\<rparr>,
      Create (example_now + 10) (example_now + 12) ''b9'' ''/api/bookings''
        \<lparr>c_deviceId = ''d1'', c_auditoryId = ''a1'', c_endTime = ''2030-01-01T00:00:00.000Z''\<rparr>,
      Create (example_now + 20) (example_now + 22) ''b2'' ''/api/bookings''
        \<lparr>c_deviceId = ''d1'', c_auditoryId = ''a2'', c_endTime = ''2030-01-01T00:00:00.000Z''\<rparr>,
      Update (example_now + 30) ''/api/bookings/b2'' ''b2''
        \<lparr>u_deviceId = None, u_auditoryId = Some ''a1'', u_endTime = None\<rparr>,
      Delete ''/api/bookings/b1'' ''b1'',
      Update (example_now + 40) ''/api/bookings/b2'' ''b2''
        \<lparr>u_deviceId = None, u_auditoryId = Some ''a1'', u_endTime = None\<rparr>]"

section \<open>Invariants of the bookings table\<close>

text \<open>The primary key: no two rows of \<open>Booking\<close> share an id.\<close>

definition keyed :: "db \<Rightarrow> bool" where
  "keyed d = distinct (map booking_id (bookings d))"

text \<open>Two different rows never hold the same auditory while both are active at \<open>t\<close>.\<close>

definition exclusive :: "db \<Rightarrow> int \<Rightarrow> bool" where
  "exclusive d t =
     (\<forall>x\<in>set (bookings d). \<forall>y\<in>set (bookings d).
        auditoryId x = auditoryId y \<and> t < endTime x \<and> t < endTime y \<longrightarrow> x = y)"




section \<open>Auxiliary facts\<close>

lemmas handler_defs = createBooking_def updateBooking_def deleteBooking_def booking_create_def
  booking_update_def booking_delete_def booking_findFirst_def booking_findUnique_def
  device_findUnique_def auditory_findUnique_def date_le_def rejects_endTime_def newEndAt_of_def
  truthy_def or_else_def apply_data_def fk_ok_def problem_reply_def setErrorHandler_def
  prisma_throw_def Let_def

lemmas ex_defs = example_env_def example_now_def example_db_def example_db1_def example_db2_def
  example_db3_def example_booking_def example_booking2_def example_expired_def

lemma find_SomeD:
  assumes "find P xs = Some x"
  shows "P x" and "x \<in> set xs"
  using assms by (induction xs) (auto split: if_splits)

lemma find_conflict:
  assumes "\<exists>b\<in>set xs. P b"
  obtains c where "find P xs = Some c" and "c \<in> set xs" and "P c"
proof -
  from assms have "find P xs \<noteq> None" by (auto simp: find_None_iff)
  then obtain c where c: "find P xs = Some c" by blast
  from c have "P c" and "c \<in> set xs" by (rule find_SomeD)+
  with c that show thesis by blast
qed

lemma truthy_empty [simp]: "truthy (Some []) = False" "truthy None = False"
  by (simp_all add: truthy_def)

lemma or_else_empty [simp]: "or_else (Some []) x = x" "or_else None x = x"
  by (simp_all add: or_else_def)

lemma apply_data_none [simp]:
  "apply_data \<lparr>data_deviceId = None, data_auditoryId = None, data_endTime = None\<rparr> b = b"
  by (simp add: apply_data_def)

lemma find_map_self:
  "find (\<lambda>x. f x = i) xs = Some b \<Longrightarrow>
   find (\<lambda>x. f x = i) (map (\<lambda>x. if f x = i then b else x) xs) = Some b"
proof (induction xs)
  case Nil
  then show ?case by simp
next
  case (Cons a xs)
  then show ?case by (auto dest: find_SomeD split: if_splits)
qed

lemma map_replace_key:
  assumes "distinct (map f xs)" and "find (\<lambda>x. f x = i) xs = Some b"
  shows "\<exists>k<length xs. xs ! k = b \<and> map (\<lambda>x. if f x = i then b' else x) xs = xs[k := b']"
  using assms
proof (induction xs)
  case Nil
  then show ?case by simp
next
  case (Cons a xs)
  show ?case
  proof (cases "f a = i")
    case True
    with Cons.prems have "a = b" by simp
    from True Cons.prems(1) have "f a \<notin> f ` set xs" by simp
    with True have "\<forall>x\<in>set xs. f x \<noteq> i" by blast
    then have "map (\<lambda>x. if f x = i then b' else x) xs = xs"
      by (induction xs) auto
    with True \<open>a = b\<close> have "0 < length (a # xs) \<and> (a # xs) ! 0 = b \<and>
        map (\<lambda>x. if f x = i then b' else x) (a # xs) = (a # xs)[0 := b']" by simp
    then show ?thesis by blast
  next
    case False
    with Cons.prems have "distinct (map f xs)" "find (\<lambda>x. f x = i) xs = Some b" by simp_all
    from Cons.IH[OF this] obtain k where "k < length xs" "xs ! k = b"
      "map (\<lambda>x. if f x = i then b' else x) xs = xs[k := b']" by blast
    with False have "Suc k < length (a # xs) \<and> (a # xs) ! Suc k = b \<and>
        map (\<lambda>x. if f x = i then b' else x) (a # xs) = (a # xs)[Suc k := b']" by simp
    then show ?thesis by blast
  qed
qed

lemma updateBooking_ok_cases:
  assumes "code (fst (updateBooking e now url i body d)) = 200"
  obtains bk where "booking_findUnique d i = Some bk"
    and "newEndAt_of e body \<noteq> Some InvalidDate"
    and "updateBooking e now url i body d =
          (let dt = \<lparr>data_deviceId = (if truthy (u_deviceId body) then u_deviceId body else None),
                     data_auditoryId = (if truthy (u_auditoryId body) then u_auditoryId body else None),
                     data_endTime = newEndAt_of e body\<rparr>; b' = apply_data dt bk
           in (\<lparr>code = 200, ctype = None,
                payload = BookingJson b' (device_findUnique d (deviceId b'))
                            (auditory_findUnique d (auditoryId b'))\<rparr>,
               d\<lparr>bookings := map (\<lambda>x. if booking_id x = i then b' else x) (bookings d)\<rparr>))"
  using assms
  by (auto simp: updateBooking_def booking_update_def problem_reply_def setErrorHandler_def
      prisma_throw_def Let_def split: if_splits option.splits)

lemma exclusive_mono: "exclusive d T \<Longrightarrow> T \<le> t \<Longrightarrow> exclusive d t"
  unfolding exclusive_def by (meson less_le_trans le_less_trans)

lemma filter_at_most_one:
  assumes "distinct xs" and "\<forall>x\<in>set xs. \<forall>y\<in>set xs. P x \<and> P y \<longrightarrow> x = y"
  shows "length (filter P xs) \<le> 1"
  using assms
proof (induction xs)
  case Nil
  then show ?case by simp
next
  case (Cons a xs)
  show ?case
  proof (cases "P a")
    case True
    with Cons.prems have "\<forall>x\<in>set xs. \<not> P x" by auto
    then have "filter P xs = []" by (simp add: filter_empty_conv)
    with True show ?thesis by simp
  next
    case False
    with Cons show ?thesis by simp
  qed
qed

lemma booking_create_cases:
  "(\<exists>err. booking_create d newId ts dev aud endAt = Inl err) \<or>
   (\<exists>t dv au. endAt = Date t \<and> device_findUnique d dev = Some dv \<and>
      auditory_findUnique d aud = Some au \<and> booking_findUnique d newId = None \<and>
      booking_create d newId ts dev aud endAt =
        Inr ((\<lparr>booking_id = newId, deviceId = dev, auditoryId = aud,
               startTime = ts, endTime = t\<rparr>, dv, au),
             d\<lparr>bookings := bookings d @
                 [\<lparr>booking_id = newId, deviceId = dev, auditoryId = aud,
                   startTime = ts, endTime = t\<rparr>]\<rparr>))"
  by (simp add: booking_create_def Let_def split: jsdate.split option.split)


lemma createBooking_snd_cases:
  "snd (createBooking e now ts newId url body d) = d \<or>
   (\<exists>t. new_Date e (c_endTime body) = Date t \<and> now < t \<and>
        find (\<lambda>b. auditoryId b = c_auditoryId body \<and> now < endTime b) (bookings d) = None \<and>
        find (\<lambda>b. booking_id b = newId) (bookings d) = None \<and>
        snd (createBooking e now ts newId url body d) =
          d\<lparr>bookings := bookings d @
               [\<lparr>booking_id = newId, deviceId = c_deviceId body,
                 auditoryId = c_auditoryId body, startTime = ts, endTime = t\<rparr>]\<rparr>)"
proof (cases "date_le (new_Date e (c_endTime body)) now")
  case True
  then show ?thesis by (simp add: createBooking_def)
next
  case late: False
  show ?thesis
  proof (cases "find (\<lambda>b. auditoryId b = c_auditoryId body \<and> now < endTime b) (bookings d)")
    case (Some c)
    with late show ?thesis by (simp add: createBooking_def booking_findFirst_def)
  next
    case None
    from booking_create_cases[of d newId ts "c_deviceId body" "c_auditoryId body"
        "new_Date e (c_endTime body)"]
    show ?thesis
    proof (elim disjE exE conjE)
      fix err
      assume "booking_create d newId ts (c_deviceId body) (c_auditoryId body)
                (new_Date e (c_endTime body)) = Inl err"
      with late None show ?thesis by (simp add: createBooking_def booking_findFirst_def)
    next
      fix t dv au
      assume t: "new_Date e (c_endTime body) = Date t"
        and fresh: "booking_findUnique d newId = None"
        and r: "booking_create d newId ts (c_deviceId body) (c_auditoryId body)
                (new_Date e (c_endTime body)) =
          Inr ((\<lparr>booking_id = newId, deviceId = c_deviceId body, auditoryId = c_auditoryId body,
               startTime = ts, endTime = t\<rparr>, dv, au),
             d\<lparr>bookings := bookings d @
                 [\<lparr>booking_id = newId, deviceId = c_deviceId body, auditoryId = c_auditoryId body,
                   startTime = ts, endTime = t\<rparr>]\<rparr>)"
      from late t have "now < t" by (simp add: date_le_def)
      moreover from late None r have "snd (createBooking e now ts newId url body d) =
          d\<lparr>bookings := bookings d @
               [\<lparr>booking_id = newId, deviceId = c_deviceId body,
                 auditoryId = c_auditoryId body, startTime = ts, endTime = t\<rparr>]\<rparr>"
        by (simp add: createBooking_def booking_findFirst_def)
      ultimately show ?thesis using t None fresh by (simp add: booking_findUnique_def)
    qed
  qed
qed

lemma booking_update_cases:
  "(\<exists>err. booking_update d i dt = Inl err) \<or>
   (\<exists>bk. booking_findUnique d i = Some bk \<and> data_endTime dt \<noteq> Some InvalidDate \<and>
      booking_update d i dt =
        Inr ((apply_data dt bk, device_findUnique d (deviceId (apply_data dt bk)),
              auditory_findUnique d (auditoryId (apply_data dt bk))),
             d\<lparr>bookings := map (\<lambda>x. if booking_id x = i then apply_data dt bk else x)
                              (bookings d)\<rparr>))"
  by (simp add: booking_update_def Let_def split: option.split)

lemma updateBooking_snd_cases:
  "snd (updateBooking e now url i body d) = d \<or>
   (\<exists>bk dt. find (\<lambda>b. booking_id b = i) (bookings d) = Some bk \<and>
      \<not> rejects_endTime e now body \<and>
      dt = \<lparr>data_deviceId = (if truthy (u_deviceId body) then u_deviceId body else None),
            data_auditoryId = (if truthy (u_auditoryId body) then u_auditoryId body else None),
            data_endTime = newEndAt_of e body\<rparr> \<and>
      data_endTime dt \<noteq> Some InvalidDate \<and>
      (truthy (u_auditoryId body) \<or> truthy (u_endTime body) \<longrightarrow>
         find (\<lambda>b. auditoryId b = or_else (u_auditoryId body) (auditoryId bk) \<and>
                    now < endTime b \<and> booking_id b \<noteq> i) (bookings d) = None) \<and>
      snd (updateBooking e now url i body d) =
        d\<lparr>bookings := map (\<lambda>x. if booking_id x = i then apply_data dt bk else x) (bookings d)\<rparr>)"
proof (cases "rejects_endTime e now body")
  case True
  then show ?thesis by (simp add: updateBooking_def)
next
  case pass: False
  show ?thesis
  proof (cases "booking_findUnique d i")
    case None
    with pass show ?thesis by (simp add: updateBooking_def)
  next
    case (Some bk)
    define dt where "dt = \<lparr>data_deviceId = (if truthy (u_deviceId body) then u_deviceId body else None),
            data_auditoryId = (if truthy (u_auditoryId body) then u_auditoryId body else None),
            data_endTime = newEndAt_of e body\<rparr>"
    define conflicting where "conflicting =
       (if truthy (u_auditoryId body) \<or> truthy (u_endTime body)
        then booking_findFirst d
               (\<lambda>b. auditoryId b = or_else (u_auditoryId body) (auditoryId bk) \<and> now < endTime b
                      \<and> booking_id b \<noteq> i)
        else None)"
    have unfold: "updateBooking e now url i body d =
       (case conflicting of
          Some c \<Rightarrow> (problem_reply 409 ''Conflict''
                       (busy_until @ toLocaleTimeString e (endTime c)) url, d)
        | None \<Rightarrow> (case booking_update d i dt of
                     Inl err \<Rightarrow> (setErrorHandler (prisma_throw e err) url, d)
                   | Inr ((b', dv, au), d') \<Rightarrow>
                       (\<lparr>code = 200, ctype = None, payload = BookingJson b' dv au\<rparr>, d')))"
      using pass Some
      by (simp only: updateBooking_def Let_def dt_def conflicting_def if_False option.case)
    show ?thesis
    proof (cases conflicting)
      case (Some c)
      with unfold show ?thesis by simp
    next
      case None
      then have chk: "truthy (u_auditoryId body) \<or> truthy (u_endTime body) \<longrightarrow>
         find (\<lambda>b. auditoryId b = or_else (u_auditoryId body) (auditoryId bk) \<and>
                    now < endTime b \<and> booking_id b \<noteq> i) (bookings d) = None"
        by (simp add: conflicting_def booking_findFirst_def split: if_splits)
      from booking_update_cases[of d i dt] show ?thesis
      proof (elim disjE exE conjE)
        fix err assume "booking_update d i dt = Inl err"
        with unfold None show ?thesis by simp
      next
        fix bk'
        assume bk': "booking_findUnique d i = Some bk'"
          and valid: "data_endTime dt \<noteq> Some InvalidDate"
          and r: "booking_update d i dt =
            Inr ((apply_data dt bk', device_findUnique d (deviceId (apply_data dt bk')),
              auditory_findUnique d (auditoryId (apply_data dt bk'))),
             d\<lparr>bookings := map (\<lambda>x. if booking_id x = i then apply_data dt bk' else x)
                              (bookings d)\<rparr>)"
        from bk' \<open>booking_findUnique d i = Some bk\<close> have "bk' = bk" by simp
        with unfold None r have "snd (updateBooking e now url i body d) =
           d\<lparr>bookings := map (\<lambda>x. if booking_id x = i then apply_data dt bk else x) (bookings d)\<rparr>"
          by simp
        moreover from \<open>booking_findUnique d i = Some bk\<close>
        have "find (\<lambda>b. booking_id b = i) (bookings d) = Some bk"
          by (simp add: booking_findUnique_def)
        ultimately have "\<exists>bk dt. find (\<lambda>b. booking_id b = i) (bookings d) = Some bk \<and>
      \<not> rejects_endTime e now body \<and>
      dt = \<lparr>data_deviceId = (if truthy (u_deviceId body) then u_deviceId body else None),
            data_auditoryId = (if truthy (u_auditoryId body) then u_auditoryId body else None),
            data_endTime = newEndAt_of e body\<rparr> \<and>
      data_endTime dt \<noteq> Some InvalidDate \<and>
      (truthy (u_auditoryId body) \<or> truthy (u_endTime body) \<longrightarrow>
         find (\<lambda>b. auditoryId b = or_else (u_auditoryId body) (auditoryId bk) \<and>
                    now < endTime b \<and> booking_id b \<noteq> i) (bookings d) = None) \<and>
      snd (updateBooking e now url i body d) =
        d\<lparr>bookings := map (\<lambda>x. if booking_id x = i then apply_data dt bk else x) (bookings d)\<rparr>"
          using pass chk valid dt_def by blast
        then show ?thesis ..
      qed
    qed
  qed
qed

lemma deleteBooking_snd:
  "snd (deleteBooking e url i d) = d \<or>
   snd (deleteBooking e url i d) = d\<lparr>bookings := filter (\<lambda>x. booking_id x \<noteq> i) (bookings d)\<rparr>"
  by (simp add: deleteBooking_def booking_delete_def split: option.split)

lemma createBooking_ok_cases:
  assumes "code (fst (createBooking e now ts newId url body d)) = 201"
  obtains t dv au where "new_Date e (c_endTime body) = Date t" and "now < t"
    and "device_findUnique d (c_deviceId body) = Some dv"
    and "auditory_findUnique d (c_auditoryId body) = Some au"
    and "createBooking e now ts newId url body d =
             (\<lparr>code = 201, ctype = None,
               payload = BookingJson
                 \<lparr>booking_id = newId, deviceId = c_deviceId body,
                  auditoryId = c_auditoryId body, startTime = ts, endTime = t\<rparr>
                 (Some dv) (Some au)\<rparr>,
              d\<lparr>bookings := bookings d @
                   [\<lparr>booking_id = newId, deviceId = c_deviceId body,
                     auditoryId = c_auditoryId body, startTime = ts, endTime = t\<rparr>]\<rparr>)"
proof (cases "date_le (new_Date e (c_endTime body)) now")
  case True
  with assms show ?thesis by (simp add: createBooking_def problem_reply_def)
next
  case late: False
  show ?thesis
  proof (cases "find (\<lambda>b. auditoryId b = c_auditoryId body \<and> now < endTime b) (bookings d)")
    case (Some c)
    with late assms show ?thesis
      by (simp add: createBooking_def booking_findFirst_def problem_reply_def)
  next
    case None
    from booking_create_cases[of d newId ts "c_deviceId body" "c_auditoryId body"
        "new_Date e (c_endTime body)"]
    show ?thesis
    proof (elim disjE exE conjE)
      fix err
      assume "booking_create d newId ts (c_deviceId body) (c_auditoryId body)
                (new_Date e (c_endTime body)) = Inl err"
      with late None assms show ?thesis
        by (simp add: createBooking_def booking_findFirst_def setErrorHandler_def prisma_throw_def)
    next
      fix t dv au
      assume t: "new_Date e (c_endTime body) = Date t"
        and dv: "device_findUnique d (c_deviceId body) = Some dv"
        and au: "auditory_findUnique d (c_auditoryId body) = Some au"
        and r: "booking_create d newId ts (c_deviceId body) (c_auditoryId body)
                (new_Date e (c_endTime body)) =
          Inr ((\<lparr>booking_id = newId, deviceId = c_deviceId body, auditoryId = c_auditoryId body,
               startTime = ts, endTime = t\<rparr>, dv, au),
             d\<lparr>bookings := bookings d @
                 [\<lparr>booking_id = newId, deviceId = c_deviceId body, auditoryId = c_auditoryId body,
                   startTime = ts, endTime = t\<rparr>]\<rparr>)"
      from late t have "now < t" by (simp add: date_le_def)
      moreover from late None r have "createBooking e now ts newId url body d =
             (\<lparr>code = 201, ctype = None,
               payload = BookingJson
                 \<lparr>booking_id = newId, deviceId = c_deviceId body,
                  auditoryId = c_auditoryId body, startTime = ts, endTime = t\<rparr>
                 (Some dv) (Some au)\<rparr>,
              d\<lparr>bookings := bookings d @
                   [\<lparr>booking_id = newId, deviceId = c_deviceId body,
                     auditoryId = c_auditoryId body, startTime = ts, endTime = t\<rparr>]\<rparr>)"
        by (simp add: createBooking_def booking_findFirst_def)
      ultimately show ?thesis using t dv au that by blast
    qed
  qed
qed

subsection \<open>The handlers keep the key and the exclusion\<close>

lemma create_keeps_exclusive:
  assumes "keyed d" and "exclusive d T" and "T \<le> now"
  shows "keyed (snd (createBooking e now ts newId url body d)) \<and>
         exclusive (snd (createBooking e now ts newId url body d)) now"
proof -
  from assms(2,3) have ex: "exclusive d now" by (rule exclusive_mono)
  from createBooking_snd_cases[of e now ts newId url body d] show ?thesis
  proof
    assume "snd (createBooking e now ts newId url body d) = d"
    with assms(1) ex show ?thesis by simp
  next
    assume "\<exists>t. new_Date e (c_endTime body) = Date t \<and> now < t \<and>
        find (\<lambda>b. auditoryId b = c_auditoryId body \<and> now < endTime b) (bookings d) = None \<and>
        find (\<lambda>b. booking_id b = newId) (bookings d) = None \<and>
        snd (createBooking e now ts newId url body d) =
          d\<lparr>bookings := bookings d @
               [\<lparr>booking_id = newId, deviceId = c_deviceId body,
                 auditoryId = c_auditoryId body, startTime = ts, endTime = t\<rparr>]\<rparr>"
    then obtain t where
      free: "\<forall>b\<in>set (bookings d). \<not> (auditoryId b = c_auditoryId body \<and> now < endTime b)"
      and fresh: "\<forall>b\<in>set (bookings d). booking_id b \<noteq> newId"
      and res: "snd (createBooking e now ts newId url body d) =
          d\<lparr>bookings := bookings d @
               [\<lparr>booking_id = newId, deviceId = c_deviceId body,
                 auditoryId = c_auditoryId body, startTime = ts, endTime = t\<rparr>]\<rparr>"
      by (auto simp: find_None_iff)
    from fresh assms(1) have "keyed (snd (createBooking e now ts newId url body d))"
      unfolding res keyed_def by auto
    moreover from free ex have "exclusive (snd (createBooking e now ts newId url body d)) now"
      unfolding res exclusive_def by auto
    ultimately show ?thesis ..
  qed
qed

lemma update_keeps_exclusive:
  assumes k: "keyed d" and "exclusive d T" and "T \<le> now"
  shows "keyed (snd (updateBooking e now url i body d)) \<and>
         exclusive (snd (updateBooking e now url i body d)) now"
proof -
  from assms(2,3) have ex: "exclusive d now" by (rule exclusive_mono)
  from updateBooking_snd_cases[of e now url i body d] show ?thesis
  proof
    assume "snd (updateBooking e now url i body d) = d"
    with k ex show ?thesis by simp
  next
    assume "\<exists>bk dt. find (\<lambda>b. booking_id b = i) (bookings d) = Some bk \<and>
      \<not> rejects_endTime e now body \<and>
      dt = \<lparr>data_deviceId = (if truthy (u_deviceId body) then u_deviceId body else None),
            data_auditoryId = (if truthy (u_auditoryId body) then u_auditoryId body else None),
            data_endTime = newEndAt_of e body\<rparr> \<and>
      data_endTime dt \<noteq> Some InvalidDate \<and>
      (truthy (u_auditoryId body) \<or> truthy (u_endTime body) \<longrightarrow>
         find (\<lambda>b. auditoryId b = or_else (u_auditoryId body) (auditoryId bk) \<and>
                    now < endTime b \<and> booking_id b \<noteq> i) (bookings d) = None) \<and>
      snd (updateBooking e now url i body d) =
        d\<lparr>bookings := map (\<lambda>x. if booking_id x = i then apply_data dt bk else x) (bookings d)\<rparr>"
    then obtain bk dt where
      f: "find (\<lambda>b. booking_id b = i) (bookings d) = Some bk"
      and dt: "dt = \<lparr>data_deviceId = (if truthy (u_deviceId body) then u_deviceId body else None),
            data_auditoryId = (if truthy (u_auditoryId body) then u_auditoryId body else None),
            data_endTime = newEndAt_of e body\<rparr>"
      and chk: "truthy (u_auditoryId body) \<or> truthy (u_endTime body) \<longrightarrow>
         find (\<lambda>b. auditoryId b = or_else (u_auditoryId body) (auditoryId bk) \<and>
                    now < endTime b \<and> booking_id b \<noteq> i) (bookings d) = None"
      and res: "snd (updateBooking e now url i body d) =
        d\<lparr>bookings := map (\<lambda>x. if booking_id x = i then apply_data dt bk else x) (bookings d)\<rparr>"
      by blast
    define b' where "b' = apply_data dt bk"
    from f have bk: "booking_id bk = i" "bk \<in> set (bookings d)" by (rule find_SomeD)+
    have idb': "booking_id b' = i" using bk by (simp add: b'_def apply_data_def)
    have aud: "auditoryId b' = or_else (u_auditoryId body) (auditoryId bk)"
      by (auto simp: b'_def apply_data_def dt truthy_def or_else_def split: option.splits)
    have same: "\<not> truthy (u_auditoryId body) \<Longrightarrow> \<not> truthy (u_endTime body) \<Longrightarrow>
        auditoryId b' = auditoryId bk \<and> endTime b' = endTime bk"
      by (auto simp: b'_def apply_data_def dt truthy_def newEndAt_of_def split: option.splits)
    have uniq: "\<And>x. x \<in> set (bookings d) \<Longrightarrow> booking_id x = i \<Longrightarrow> x = bk"
      using k bk unfolding keyed_def by (metis distinct_map inj_onD)
    have other: "\<And>y. y \<in> set (bookings d) \<Longrightarrow> booking_id y \<noteq> i \<Longrightarrow>
        auditoryId y = auditoryId b' \<Longrightarrow> now < endTime y \<Longrightarrow> now < endTime b' \<Longrightarrow> False"
    proof -
      fix y assume y: "y \<in> set (bookings d)" "booking_id y \<noteq> i"
        "auditoryId y = auditoryId b'" "now < endTime y" "now < endTime b'"
      show False
      proof (cases "truthy (u_auditoryId body) \<or> truthy (u_endTime body)")
        case True
        with chk have "\<forall>b\<in>set (bookings d). \<not> (auditoryId b = or_else (u_auditoryId body) (auditoryId bk) \<and>
                    now < endTime b \<and> booking_id b \<noteq> i)"
          by (auto simp: find_None_iff)
        with y aud show False by auto
      next
        case False
        with same have "auditoryId b' = auditoryId bk" "endTime b' = endTime bk" by auto
        with y bk ex have "y = bk" unfolding exclusive_def by metis
        with y(2) bk(1) show False by simp
      qed
    qed
    have ids: "map booking_id (map (\<lambda>x. if booking_id x = i then b' else x) xs)
                 = map booking_id xs" for xs
      using idb' by (induction xs) auto
    have "keyed (snd (updateBooking e now url i body d))"
      using k ids[of "bookings d"] unfolding res keyed_def b'_def[symmetric]
      by (simp del: map_map)
    moreover have "exclusive (snd (updateBooking e now url i body d)) now"
      unfolding res b'_def[symmetric] exclusive_def
    proof (intro ballI impI)
      fix x y
      assume x: "x \<in> set (bookings (d\<lparr>bookings := map (\<lambda>x. if booking_id x = i then b' else x) (bookings d)\<rparr>))"
        and y: "y \<in> set (bookings (d\<lparr>bookings := map (\<lambda>x. if booking_id x = i then b' else x) (bookings d)\<rparr>))"
        and act: "auditoryId x = auditoryId y \<and> now < endTime x \<and> now < endTime y"
      from x have x': "x = b' \<or> (x \<in> set (bookings d) \<and> booking_id x \<noteq> i)" by auto
      from y have y': "y = b' \<or> (y \<in> set (bookings d) \<and> booking_id y \<noteq> i)" by auto
      from x' y' show "x = y"
      proof (elim disjE conjE)
        assume "x = b'" "y = b'" then show ?thesis by simp
      next
        assume "x = b'" "y \<in> set (bookings d)" "booking_id y \<noteq> i"
        with other[of y] act show ?thesis by auto
      next
        assume "y = b'" "x \<in> set (bookings d)" "booking_id x \<noteq> i"
        with other[of x] act show ?thesis by auto
      next
        assume "x \<in> set (bookings d)" "y \<in> set (bookings d)"
        with ex act show ?thesis unfolding exclusive_def by blast
      qed
    qed
    ultimately show ?thesis ..
  qed
qed

lemma delete_keeps_exclusive:
  assumes "keyed d" and "exclusive d T"
  shows "keyed (snd (deleteBooking e url i d)) \<and> exclusive (snd (deleteBooking e url i d)) T"
  using deleteBooking_snd[of e url i d] assms
  by (auto simp: keyed_def exclusive_def distinct_map_filter)

lemma run_keeps_exclusive:
  assumes "keyed d" and "exclusive d T" and "sorted (T # op_nows ops @ [t])"
  shows "keyed (run e d ops) \<and> exclusive (run e d ops) t"
  using assms
proof (induction ops arbitrary: d T)
  case Nil
  then show ?case by (auto intro: exclusive_mono)
next
  case (Cons x xs)
  show ?case
  proof (cases x)
    case (Create now ts newId url body)
    with Cons.prems have le: "T \<le> now" and s: "sorted (now # op_nows xs @ [t])" by auto
    from create_keeps_exclusive[OF Cons.prems(1,2) le, of e ts newId url body]
    have "keyed (step e d x)" "exclusive (step e d x) now" using Create by simp_all
    from Cons.IH[OF this s] show ?thesis by simp
  next
    case (Update now url i body)
    with Cons.prems have le: "T \<le> now" and s: "sorted (now # op_nows xs @ [t])" by auto
    from update_keeps_exclusive[OF Cons.prems(1,2) le, of e url i body]
    have "keyed (step e d x)" "exclusive (step e d x) now" using Update by simp_all
    from Cons.IH[OF this s] show ?thesis by simp
  next
    case (Delete url i)
    with Cons.prems have s: "sorted (T # op_nows xs @ [t])" by simp
    from delete_keeps_exclusive[OF Cons.prems(1,2), of e url i]
    have "keyed (step e d x)" "exclusive (step e d x) T" using Delete by simp_all
    from Cons.IH[OF this s] show ?thesis by simp
  qed
qed

subsection \<open>Every row goes back to its insertion\<close>







subsection \<open>The example sequence, request by request\<close>

lemma example_step1: "step example_env example_db (example_ops ! 0) = example_db1"
  by (simp add: example_ops_def ex_defs handler_defs)

lemma example_step2: "step example_env example_db1 (example_ops ! 1) = example_db1"
  by (simp add: example_ops_def ex_defs handler_defs)

lemma example_step3: "step example_env example_db1 (example_ops ! 2) = example_db2"
  by (simp add: example_ops_def ex_defs handler_defs)

lemma example_step4: "step example_env example_db2 (example_ops ! 3) = example_db2"
  by (simp add: example_ops_def ex_defs handler_defs)

lemma example_step5: "step example_env example_db2 (example_ops ! 4) =
    example_db\<lparr>bookings := [example_booking2]\<rparr>"
  by (simp add: example_ops_def ex_defs handler_defs)

lemma example_step6:
  "step example_env (example_db\<lparr>bookings := [example_booking2]\<rparr>) (example_ops ! 5) =
    example_db\<lparr>bookings := [example_booking2\<lparr>auditoryId := ''a1''\<rparr>]\<rparr>"
  by (simp add: example_ops_def ex_defs handler_defs)

lemma example_run:
  "run example_env example_db example_ops =
     example_db\<lparr>bookings := [example_booking2\<lparr>auditoryId := ''a1''\<rparr>]\<rparr>"
proof -
  have ops: "example_ops = [example_ops ! 0, example_ops ! 1, example_ops ! 2, example_ops ! 3,
      example_ops ! 4, example_ops ! 5]"
    by (simp add: example_ops_def)
  show ?thesis
    by (subst ops)
      (simp only: run.simps example_step1 example_step2 example_step3 example_step4
        example_step5 example_step6)
qed


section \<open>Properties\<close>

text \<open>
  C1. Booking requests are handled one at a time, starting from a database with no
  booking, and the clock the handlers sample never runs backwards. Then at any time \<open>t\<close>
  from the last request on, every auditory has at most one booking with \<open>endTime > t\<close>.
\<close>

theorem one_active_booking_per_auditory:
  assumes "bookings d0 = []" and "sorted (op_nows ops @ [t])"
  shows "length (active (run e d0 ops) a t) \<le> 1"
proof -
  define T where "T = hd (op_nows ops @ [t])"
  have "sorted (T # op_nows ops @ [t])"
    using assms(2) unfolding T_def by (cases "op_nows ops @ [t]") auto
  moreover from assms(1) have "keyed d0" "exclusive d0 T"
    by (simp_all add: keyed_def exclusive_def)
  ultimately have inv: "keyed (run e d0 ops)" "exclusive (run e d0 ops) t"
    using run_keeps_exclusive by blast+
  from inv(1) have "distinct (bookings (run e d0 ops))"
    unfolding keyed_def by (simp add: distinct_map)
  moreover from inv(2) have "\<forall>x\<in>set (bookings (run e d0 ops)). \<forall>y\<in>set (bookings (run e d0 ops)).
      (auditoryId x = a \<and> t < endTime x) \<and> (auditoryId y = a \<and> t < endTime y) \<longrightarrow> x = y"
    unfolding exclusive_def by auto
  ultimately show ?thesis unfolding active_def by (rule filter_at_most_one)
qed

text \<open>The theorem on the example sequence.\<close>

theorem one_active_booking_per_auditory_witness:
  "bookings example_db = [] \<and>
   sorted (op_nows example_ops @ [example_now + 50]) \<and>
   length (active (run example_env example_db example_ops) ''a1'' (example_now + 50)) \<le> 1 \<and>
   length (active (run example_env example_db example_ops) ''a1'' (example_now + 50)) = 1"
proof -
  have h1: "bookings example_db = []" by (simp add: example_db_def)
  have h2: "sorted (op_nows example_ops @ [example_now + 50])"
    by (simp add: example_ops_def)
  have "length (active (run example_env example_db example_ops) ''a1'' (example_now + 50)) = 1"
    by (simp add: active_def example_run example_now_def example_booking2_def)
  with one_active_booking_per_auditory[OF h1 h2, of example_env "''a1''"] h1 h2
  show ?thesis by simp
qed

text \<open>
  C2. A successful \<open>Create\<close> (status 201) appends one row whose \<open>deviceId\<close>,
  \<open>auditoryId\<close> and \<open>endTime\<close> are the request's and whose \<open>startTime\<close> is the
  timestamp \<open>ts\<close> the store reads when it inserts (the column default), not the \<open>now\<close> the
  handler sampled; the reply carries that row with its device and its auditory.
\<close>

theorem createBooking_created:
  assumes "code (fst (createBooking e now ts newId url body d)) = 201"
  shows "\<exists>t dv au.
           new_Date e (c_endTime body) = Date t \<and>
           device_findUnique d (c_deviceId body) = Some dv \<and>
           auditory_findUnique d (c_auditoryId body) = Some au \<and>
           createBooking e now ts newId url body d =
             (\<lparr>code = 201, ctype = None,
               payload = BookingJson
                 \<lparr>booking_id = newId, deviceId = c_deviceId body,
                  auditoryId = c_auditoryId body, startTime = ts, endTime = t\<rparr>
                 (Some dv) (Some au)\<rparr>,
              d\<lparr>bookings := bookings d @
                   [\<lparr>booking_id = newId, deviceId = c_deviceId body,
                     auditoryId = c_auditoryId body, startTime = ts, endTime = t\<rparr>]\<rparr>)"
  using assms by (rule createBooking_ok_cases) blast

text \<open>The theorem at a concrete request.\<close>

theorem createBooking_created_witness:
  "code (fst (createBooking example_env example_now (example_now + 5) ''b1'' ''/api/bookings''
       \<lparr>c_deviceId = ''d1'', c_auditoryId = ''a1'', c_endTime = ''2030-01-01T00:00:00.000Z''\<rparr>
       example_db)) = 201 \<and>
   createBooking example_env example_now (example_now + 5) ''b1'' ''/api/bookings''
       \<lparr>c_deviceId = ''d1'', c_auditoryId = ''a1'', c_endTime = ''2030-01-01T00:00:00.000Z''\<rparr>
       example_db =
     (\<lparr>code = 201, ctype = None,
       payload = BookingJson
         example_booking
         (Some \<lparr>device_id = ''d1'', device_name = ''projector''\<rparr>)
         (Some \<lparr>auditory_id = ''a1'', auditory_name = ''101'', capacity = 30\<rparr>)\<rparr>,
      example_db1) \<and>
   startTime example_booking = example_now + 5"
proof -
  let ?body = "\<lparr>c_deviceId = ''d1'', c_auditoryId = ''a1'',
       c_endTime = ''2030-01-01T00:00:00.000Z''\<rparr>"
  have h: "code (fst (createBooking example_env example_now (example_now + 5) ''b1''
       ''/api/bookings'' ?body example_db)) = 201"
    by (simp add: ex_defs handler_defs)
  from createBooking_created[OF h] h show ?thesis
    by (auto simp: ex_defs device_findUnique_def auditory_findUnique_def)
qed

text \<open>With the store reading its clock 5 ms after the handler, the stored \<open>startTime\<close> is not
  the sampled \<open>now\<close>.\<close>

theorem createBooking_startTime_counterexample:
  "code (fst (createBooking example_env example_now (example_now + 5) ''b1'' ''/api/bookings''
       \<lparr>c_deviceId = ''d1'', c_auditoryId = ''a1'', c_endTime = ''2030-01-01T00:00:00.000Z''\<rparr>
       example_db)) = 201 \<and>
   startTime (last (bookings (snd (createBooking example_env example_now (example_now + 5) ''b1''
       ''/api/bookings''
       \<lparr>c_deviceId = ''d1'', c_auditoryId = ''a1'', c_endTime = ''2030-01-01T00:00:00.000Z''\<rparr>
       example_db)))) \<noteq> example_now"
  by (simp add: ex_defs handler_defs)

text \<open>
  C3. A \<open>Create\<close> whose \<open>endTime\<close> parses to an instant not after \<open>now\<close> is answered
  with status 400 and the "end time must be in the future" problem document, and the
  database is left as it was.
\<close>

theorem createBooking_invalid_interval:
  assumes "new_Date e (c_endTime body) = Date t" and "t \<le> now"
  shows "createBooking e now ts newId url body d =
           (problem_reply 400 ''Bad Request'' end_must_be_future url, d)
         \<and> code (fst (createBooking e now ts newId url body d)) = 400
         \<and> bookings (snd (createBooking e now ts newId url body d)) = bookings d"
  using assms by (simp add: createBooking_def date_le_def problem_reply_def)

text \<open>The theorem at a concrete request.\<close>

theorem createBooking_invalid_interval_witness:
  "new_Date example_env (c_endTime \<lparr>c_deviceId = ''d1'', c_auditoryId = ''a2'',
       c_endTime = ''2000-01-01T00:00:00.000Z''\<rparr>) = Date 946684800000 \<and>
   946684800000 \<le> example_now \<and>
   code (fst (createBooking example_env example_now (example_now + 5) ''b9'' ''/api/bookings''
       \<lparr>c_deviceId = ''d1'', c_auditoryId = ''a2'', c_endTime = ''2000-01-01T00:00:00.000Z''\<rparr>
       example_db1)) = 400 \<and>
   bookings (snd (createBooking example_env example_now (example_now + 5) ''b9'' ''/api/bookings''
       \<lparr>c_deviceId = ''d1'', c_auditoryId = ''a2'', c_endTime = ''2000-01-01T00:00:00.000Z''\<rparr>
       example_db1)) = bookings example_db1"
proof -
  have h1: "new_Date example_env (c_endTime \<lparr>c_deviceId = ''d1'', c_auditoryId = ''a2'',
       c_endTime = ''2000-01-01T00:00:00.000Z''\<rparr>) = Date 946684800000"
    by (simp add: example_env_def)
  have h2: "946684800000 \<le> example_now" by (simp add: example_now_def)
  from createBooking_invalid_interval[OF h1 h2, of "example_now + 5" "''b9''" "''/api/bookings''"
      example_db1] h1 h2
  show ?thesis by (simp add: problem_reply_def)
qed

text \<open>
  C4. A \<open>Create\<close> whose own \<open>endTime\<close> is not rejected (it is not \<open><= now\<close>) and whose
  auditory already has a booking with \<open>endTime > now\<close> is answered with status 409; the
  detail is the "busy until" prefix followed by the local time of the end of such a
  booking, and the database is left as it was.
\<close>

theorem createBooking_room_busy:
  assumes "\<not> date_le (new_Date e (c_endTime body)) now"
    and "\<exists>b\<in>set (bookings d). auditoryId b = c_auditoryId body \<and> now < endTime b"
  shows "\<exists>b\<in>set (bookings d). auditoryId b = c_auditoryId body \<and> now < endTime b \<and>
           createBooking e now ts newId url body d =
             (problem_reply 409 ''Conflict''
                (busy_until @ toLocaleTimeString e (endTime b)) url, d)"
proof -
  from assms(2) obtain c
    where c: "find (\<lambda>b. auditoryId b = c_auditoryId body \<and> now < endTime b) (bookings d) = Some c"
      and "c \<in> set (bookings d)" and "auditoryId c = c_auditoryId body \<and> now < endTime c"
    by (rule find_conflict)
  moreover from c assms(1) have "createBooking e now ts newId url body d =
             (problem_reply 409 ''Conflict''
                (busy_until @ toLocaleTimeString e (endTime c)) url, d)"
    by (simp add: createBooking_def booking_findFirst_def)
  ultimately show ?thesis by blast
qed

text \<open>The theorem at a concrete request.\<close>

theorem createBooking_room_busy_witness:
  "\<not> date_le (new_Date example_env (c_endTime \<lparr>c_deviceId = ''d1'', c_auditoryId = ''a1'',
       c_endTime = ''2030-01-01T00:00:00.000Z''\<rparr>)) example_now \<and>
   example_booking \<in> set (bookings example_db1) \<and>
   auditoryId example_booking = ''a1'' \<and> example_now < endTime example_booking \<and>
   createBooking example_env example_now (example_now + 5) ''b9'' ''/api/bookings''
       \<lparr>c_deviceId = ''d1'', c_auditoryId = ''a1'', c_endTime = ''2030-01-01T00:00:00.000Z''\<rparr>
       example_db1 =
     (problem_reply 409 ''Conflict''
        (busy_until @ toLocaleTimeString example_env (endTime example_booking))
        ''/api/bookings'', example_db1)"
proof -
  let ?body = "\<lparr>c_deviceId = ''d1'', c_auditoryId = ''a1'',
       c_endTime = ''2030-01-01T00:00:00.000Z''\<rparr>"
  have h1: "\<not> date_le (new_Date example_env (c_endTime ?body)) example_now"
    by (simp add: example_env_def example_now_def date_le_def)
  have h2: "\<exists>b\<in>set (bookings example_db1). auditoryId b = c_auditoryId ?body \<and> example_now < endTime b"
    by (simp add: ex_defs)
  have only: "bookings example_db1 = [example_booking]" by (simp add: ex_defs)
  from createBooking_room_busy[OF h1 h2, of "example_now + 5" "''b9''" "''/api/bookings''"] h1
  show ?thesis unfolding only by (simp add: example_booking_def example_now_def)
qed

text \<open>With an \<open>endTime\<close> in the past the same request on the busy auditory is answered 400:
  the interval test comes first.\<close>

theorem createBooking_room_busy_counterexample:
  "example_booking \<in> set (bookings example_db1) \<and>
   auditoryId example_booking = ''a1'' \<and> example_now < endTime example_booking \<and>
   code (fst (createBooking example_env example_now (example_now + 5) ''b9'' ''/api/bookings''
       \<lparr>c_deviceId = ''d1'', c_auditoryId = ''a1'', c_endTime = ''2000-01-01T00:00:00.000Z''\<rparr>
       example_db1)) = 400 \<and>
   code (fst (createBooking example_env example_now (example_now + 5) ''b9'' ''/api/bookings''
       \<lparr>c_deviceId = ''d1'', c_auditoryId = ''a1'', c_endTime = ''2000-01-01T00:00:00.000Z''\<rparr>
       example_db1)) \<noteq> 409"
  by (simp add: ex_defs handler_defs)

text \<open>
  C5. \<open>Update\<close>: when neither \<open>auditoryId\<close> nor \<open>endTime\<close> is supplied non-empty (only
  \<open>deviceId\<close>, say), the reply is never 409. When the booking exists, the supplied
  \<open>endTime\<close> is not rejected, and \<open>auditoryId\<close> or \<open>endTime\<close> is supplied non-empty, the
  conflict check runs on the effective auditory (the new one if non-empty, else the
  booking's) without the booking itself: if another active booking is there the reply is
  409 with its end time and nothing is written; if none is there the reply is not 409.
\<close>

theorem updateBooking_conflict_check:
  "(\<not> truthy (u_auditoryId body) \<and> \<not> truthy (u_endTime body) \<longrightarrow>
      code (fst (updateBooking e now url i body d)) \<noteq> 409) \<and>
   (\<forall>bk. booking_findUnique d i = Some bk \<and> \<not> rejects_endTime e now body \<and>
         (truthy (u_auditoryId body) \<or> truthy (u_endTime body)) \<longrightarrow>
      ((\<exists>c\<in>set (bookings d). auditoryId c = or_else (u_auditoryId body) (auditoryId bk) \<and>
                               now < endTime c \<and> booking_id c \<noteq> i) \<longrightarrow>
       (\<exists>c\<in>set (bookings d). auditoryId c = or_else (u_auditoryId body) (auditoryId bk) \<and>
                               now < endTime c \<and> booking_id c \<noteq> i \<and>
          updateBooking e now url i body d =
            (problem_reply 409 ''Conflict''
               (busy_until @ toLocaleTimeString e (endTime c)) url, d))) \<and>
      ((\<forall>c\<in>set (bookings d). \<not> (auditoryId c = or_else (u_auditoryId body) (auditoryId bk) \<and>
                               now < endTime c \<and> booking_id c \<noteq> i)) \<longrightarrow>
       code (fst (updateBooking e now url i body d)) \<noteq> 409))"
proof (intro conjI allI impI)
  assume "\<not> truthy (u_auditoryId body) \<and> \<not> truthy (u_endTime body)"
  then show "code (fst (updateBooking e now url i body d)) \<noteq> 409"
    by (auto simp: updateBooking_def problem_reply_def setErrorHandler_def prisma_throw_def
        Let_def split: option.splits sum.splits)
next
  fix bk
  assume a: "booking_findUnique d i = Some bk \<and> \<not> rejects_endTime e now body \<and>
         (truthy (u_auditoryId body) \<or> truthy (u_endTime body))"
  assume ex: "\<exists>c\<in>set (bookings d). auditoryId c = or_else (u_auditoryId body) (auditoryId bk) \<and>
                               now < endTime c \<and> booking_id c \<noteq> i"
  let ?P = "\<lambda>c. auditoryId c = or_else (u_auditoryId body) (auditoryId bk) \<and>
                               now < endTime c \<and> booking_id c \<noteq> i"
  from ex obtain c where c: "find ?P (bookings d) = Some c" "c \<in> set (bookings d)" "?P c"
    by (rule find_conflict)
  from a c(1) have "updateBooking e now url i body d =
            (problem_reply 409 ''Conflict''
               (busy_until @ toLocaleTimeString e (endTime c)) url, d)"
    by (auto simp: updateBooking_def booking_findFirst_def)
  with c show "\<exists>c\<in>set (bookings d). auditoryId c = or_else (u_auditoryId body) (auditoryId bk) \<and>
                               now < endTime c \<and> booking_id c \<noteq> i \<and>
          updateBooking e now url i body d =
            (problem_reply 409 ''Conflict''
               (busy_until @ toLocaleTimeString e (endTime c)) url, d)" by blast
next
  fix bk
  assume a: "booking_findUnique d i = Some bk \<and> \<not> rejects_endTime e now body \<and>
         (truthy (u_auditoryId body) \<or> truthy (u_endTime body))"
  assume no: "\<forall>c\<in>set (bookings d). \<not> (auditoryId c = or_else (u_auditoryId body) (auditoryId bk) \<and>
                               now < endTime c \<and> booking_id c \<noteq> i)"
  let ?P = "\<lambda>c. auditoryId c = or_else (u_auditoryId body) (auditoryId bk) \<and>
                               now < endTime c \<and> booking_id c \<noteq> i"
  from no have "find ?P (bookings d) = None" by (auto simp: find_None_iff)
  with a show "code (fst (updateBooking e now url i body d)) \<noteq> 409"
    by (auto simp: updateBooking_def booking_findFirst_def setErrorHandler_def prisma_throw_def
        Let_def split: sum.splits)
qed

text \<open>The theorem at a concrete request.\<close>

theorem updateBooking_conflict_check_witness:
  "booking_findUnique example_db2 ''b2'' = Some example_booking2 \<and>
   \<not> rejects_endTime example_env example_now
        \<lparr>u_deviceId = None, u_auditoryId = Some ''a1'', u_endTime = None\<rparr> \<and>
   truthy (Some ''a1'') \<and>
   example_booking \<in> set (bookings example_db2) \<and>
   auditoryId example_booking = ''a1'' \<and> example_now < endTime example_booking \<and>
   booking_id example_booking \<noteq> ''b2'' \<and>
   updateBooking example_env example_now ''/api/bookings/b2'' ''b2''
        \<lparr>u_deviceId = None, u_auditoryId = Some ''a1'', u_endTime = None\<rparr> example_db2 =
     (problem_reply 409 ''Conflict''
        (busy_until @ toLocaleTimeString example_env (endTime example_booking))
        ''/api/bookings/b2'', example_db2) \<and>
   \<not> truthy (u_auditoryId \<lparr>u_deviceId = Some ''d1'', u_auditoryId = None, u_endTime = None\<rparr>) \<and>
   \<not> truthy (u_endTime \<lparr>u_deviceId = Some ''d1'', u_auditoryId = None, u_endTime = None\<rparr>) \<and>
   code (fst (updateBooking example_env example_now ''/api/bookings/b2'' ''b2''
        \<lparr>u_deviceId = Some ''d1'', u_auditoryId = None, u_endTime = None\<rparr> example_db2)) \<noteq> 409"
proof -
  let ?body = "\<lparr>u_deviceId = None, u_auditoryId = Some ''a1'', u_endTime = None\<rparr>"
  let ?dev = "\<lparr>u_deviceId = Some ''d1'', u_auditoryId = None, u_endTime = None\<rparr>"
  have h1: "booking_findUnique example_db2 ''b2'' = Some example_booking2"
    by (simp add: ex_defs booking_findUnique_def)
  have h2: "\<not> rejects_endTime example_env example_now ?body"
    by (simp add: rejects_endTime_def newEndAt_of_def)
  have h3: "truthy (u_auditoryId ?body) \<or> truthy (u_endTime ?body)" by (simp add: truthy_def)
  have only: "bookings example_db2 = [example_booking, example_booking2]" by (simp add: ex_defs)
  have h4: "\<exists>c\<in>set (bookings example_db2).
      auditoryId c = or_else (u_auditoryId ?body) (auditoryId example_booking2) \<and>
      example_now < endTime c \<and> booking_id c \<noteq> ''b2''"
    unfolding only by (simp add: ex_defs or_else_def)
  have h5: "\<not> truthy (u_auditoryId ?dev) \<and> \<not> truthy (u_endTime ?dev)" by simp
  note inst = updateBooking_conflict_check[of ?body example_env example_now "''/api/bookings/b2''"
      "''b2''" example_db2]
  from inst h1 h2 h3 h4
  have "\<exists>c\<in>set (bookings example_db2).
      auditoryId c = or_else (u_auditoryId ?body) (auditoryId example_booking2) \<and>
      example_now < endTime c \<and> booking_id c \<noteq> ''b2'' \<and>
      updateBooking example_env example_now ''/api/bookings/b2'' ''b2'' ?body example_db2 =
        (problem_reply 409 ''Conflict''
           (busy_until @ toLocaleTimeString example_env (endTime c)) ''/api/bookings/b2'',
         example_db2)"
    by blast
  then have busy: "updateBooking example_env example_now ''/api/bookings/b2'' ''b2'' ?body example_db2 =
     (problem_reply 409 ''Conflict''
        (busy_until @ toLocaleTimeString example_env (endTime example_booking))
        ''/api/bookings/b2'', example_db2)"
    unfolding only by (auto simp: example_booking_def example_booking2_def example_env_def)
  from updateBooking_conflict_check[of ?dev example_env example_now "''/api/bookings/b2''"
      "''b2''" example_db2] h5
  have free: "code (fst (updateBooking example_env example_now ''/api/bookings/b2'' ''b2''
        ?dev example_db2)) \<noteq> 409" by blast
  from h1 h2 busy free show ?thesis
    by (simp add: ex_defs truthy_def)
qed

text \<open>
  With an \<open>endTime\<close> in the past, a move onto a busy auditory is answered 400, not 409.
  With \<open>auditoryId\<close> supplied as the empty string, the expired booking \<open>b0\<close> of \<open>a1\<close> is
  updated with status 200 although \<open>b1\<close> is active in \<open>a1\<close>: no conflict check runs.
\<close>

theorem updateBooking_conflict_check_counterexample:
  "booking_findUnique example_db2 ''b2'' = Some example_booking2 \<and>
   example_booking \<in> set (bookings example_db2) \<and>
   auditoryId example_booking = ''a1'' \<and> example_now < endTime example_booking \<and>
   booking_id example_booking \<noteq> ''b2'' \<and>
   code (fst (updateBooking example_env example_now ''/api/bookings/b2'' ''b2''
        \<lparr>u_deviceId = None, u_auditoryId = Some ''a1'',
         u_endTime = Some ''2000-01-01T00:00:00.000Z''\<rparr> example_db2)) = 400 \<and>
   code (fst (updateBooking example_env example_now ''/api/bookings/b2'' ''b2''
        \<lparr>u_deviceId = None, u_auditoryId = Some ''a1'',
         u_endTime = Some ''2000-01-01T00:00:00.000Z''\<rparr> example_db2)) \<noteq> 409 \<and>
   booking_findUnique example_db3 ''b0'' = Some example_expired \<and>
   example_booking \<in> set (bookings example_db3) \<and>
   auditoryId example_booking = or_else (Some []) (auditoryId example_expired) \<and>
   example_now < endTime example_booking \<and> booking_id example_booking \<noteq> ''b0'' \<and>
   code (fst (updateBooking example_env example_now ''/api/bookings/b0'' ''b0''
        \<lparr>u_deviceId = None, u_auditoryId = Some [], u_endTime = None\<rparr> example_db3)) = 200"
  by (simp add: ex_defs handler_defs)

text \<open>
  C6. An \<open>Update\<close> of an id that no booking has leaves the database as it was. The
  \<open>endTime\<close> test comes before the lookup: the reply is 400 when a non-empty \<open>endTime\<close>
  is \<open><= now\<close>, and 404 "booking not found" otherwise.
\<close>

theorem updateBooking_not_found:
  assumes "booking_findUnique d i = None"
  shows "snd (updateBooking e now url i body d) = d \<and>
         (rejects_endTime e now body \<longrightarrow>
            fst (updateBooking e now url i body d) =
              problem_reply 400 ''Bad Request'' end_must_be_future url) \<and>
         (\<not> rejects_endTime e now body \<longrightarrow>
            fst (updateBooking e now url i body d) =
              problem_reply 404 ''Not Found'' booking_not_found url \<and>
            code (fst (updateBooking e now url i body d)) = 404)"
  using assms by (simp add: updateBooking_def problem_reply_def)

text \<open>The theorem at a concrete request.\<close>

theorem updateBooking_not_found_witness:
  "booking_findUnique example_db1 ''zz'' = None \<and>
   \<not> rejects_endTime example_env example_now
        \<lparr>u_deviceId = None, u_auditoryId = Some ''a2'', u_endTime = None\<rparr> \<and>
   code (fst (updateBooking example_env example_now ''/api/bookings/zz'' ''zz''
        \<lparr>u_deviceId = None, u_auditoryId = Some ''a2'', u_endTime = None\<rparr> example_db1)) = 404 \<and>
   snd (updateBooking example_env example_now ''/api/bookings/zz'' ''zz''
        \<lparr>u_deviceId = None, u_auditoryId = Some ''a2'', u_endTime = None\<rparr> example_db1)
     = example_db1"
proof -
  have h: "booking_findUnique example_db1 ''zz'' = None"
    by (simp add: ex_defs booking_findUnique_def)
  have p: "\<not> rejects_endTime example_env example_now
        \<lparr>u_deviceId = None, u_auditoryId = Some ''a2'', u_endTime = None\<rparr>"
    by (simp add: rejects_endTime_def newEndAt_of_def)
  from updateBooking_not_found[OF h, of example_env example_now "''/api/bookings/zz''"
      "\<lparr>u_deviceId = None, u_auditoryId = Some ''a2'', u_endTime = None\<rparr>"] h p
  show ?thesis by (simp add: problem_reply_def)
qed

text \<open>With an \<open>endTime\<close> in the past, an unknown id is answered 400, not 404.\<close>

theorem updateBooking_not_found_counterexample:
  "booking_findUnique example_db1 ''zz'' = None \<and>
   code (fst (updateBooking example_env example_now ''/api/bookings/zz'' ''zz''
        \<lparr>u_deviceId = None, u_auditoryId = None,
         u_endTime = Some ''2000-01-01T00:00:00.000Z''\<rparr> example_db1)) = 400 \<and>
   code (fst (updateBooking example_env example_now ''/api/bookings/zz'' ''zz''
        \<lparr>u_deviceId = None, u_auditoryId = None,
         u_endTime = Some ''2000-01-01T00:00:00.000Z''\<rparr> example_db1)) \<noteq> 404"
  by (simp add: ex_defs handler_defs)




text \<open>
  C8. A successful \<open>Update\<close> (status 200) on a table with unique ids rewrites exactly one
  row, the one with that id: its id and \<open>startTime\<close> stay, each of \<open>deviceId\<close>,
  \<open>auditoryId\<close>, \<open>endTime\<close> that the patch does not supply stays, a supplied non-empty
  one takes the patch's value; every other row, and the other tables, are unchanged.
\<close>

theorem updateBooking_partial:
  assumes ok: "code (fst (updateBooking e now url i body d)) = 200"
    and key: "distinct (map booking_id (bookings d))"
  shows "\<exists>k bk'. k < length (bookings d) \<and> booking_id (bookings d ! k) = i \<and>
           snd (updateBooking e now url i body d) =
             d\<lparr>bookings := (bookings d)[k := bk']\<rparr> \<and>
           booking_id bk' = i \<and>
           startTime bk' = startTime (bookings d ! k) \<and>
           deviceId bk' = or_else (u_deviceId body) (deviceId (bookings d ! k)) \<and>
           auditoryId bk' = or_else (u_auditoryId body) (auditoryId (bookings d ! k)) \<and>
           (u_deviceId body = None \<longrightarrow> deviceId bk' = deviceId (bookings d ! k)) \<and>
           (u_auditoryId body = None \<longrightarrow> auditoryId bk' = auditoryId (bookings d ! k)) \<and>
           (u_endTime body = None \<longrightarrow> endTime bk' = endTime (bookings d ! k)) \<and>
           (\<forall>s. u_endTime body = Some s \<and> s \<noteq> [] \<longrightarrow> new_Date e s = Date (endTime bk'))"
proof -
  define dt where "dt = \<lparr>data_deviceId = (if truthy (u_deviceId body) then u_deviceId body else None),
                     data_auditoryId = (if truthy (u_auditoryId body) then u_auditoryId body else None),
                     data_endTime = newEndAt_of e body\<rparr>"
  from ok obtain bk where bk: "booking_findUnique d i = Some bk"
    and valid: "newEndAt_of e body \<noteq> Some InvalidDate"
    and res: "snd (updateBooking e now url i body d) =
       d\<lparr>bookings := map (\<lambda>x. if booking_id x = i then apply_data dt bk else x) (bookings d)\<rparr>"
    by (rule updateBooking_ok_cases) (simp add: dt_def Let_def)
  from bk have f: "find (\<lambda>x. booking_id x = i) (bookings d) = Some bk"
    by (simp add: booking_findUnique_def)
  from map_replace_key[OF key f, of "apply_data dt bk"] obtain k
    where k: "k < length (bookings d)" "bookings d ! k = bk"
      "map (\<lambda>x. if booking_id x = i then apply_data dt bk else x) (bookings d)
         = (bookings d)[k := apply_data dt bk]" by blast
  from f have idk: "booking_id bk = i" by (rule find_SomeD)
  have fields: "booking_id (apply_data dt bk) = i"
    "startTime (apply_data dt bk) = startTime bk"
    "deviceId (apply_data dt bk) = or_else (u_deviceId body) (deviceId bk)"
    "auditoryId (apply_data dt bk) = or_else (u_auditoryId body) (auditoryId bk)"
    using idk by (auto simp: apply_data_def dt_def truthy_def or_else_def split: option.splits)
  have e1: "u_endTime body = None \<longrightarrow> endTime (apply_data dt bk) = endTime bk"
    by (simp add: apply_data_def dt_def newEndAt_of_def)
  have e2: "\<forall>s. u_endTime body = Some s \<and> s \<noteq> [] \<longrightarrow> new_Date e s = Date (endTime (apply_data dt bk))"
    using valid by (auto simp: apply_data_def dt_def newEndAt_of_def split: jsdate.splits if_splits)
  show ?thesis
    using k idk res fields e1 e2
    by (intro exI[of _ k] exI[of _ "apply_data dt bk"]) simp
qed

text \<open>The theorem at a concrete request.\<close>

theorem updateBooking_partial_witness:
  "code (fst (updateBooking example_env example_now ''/api/bookings/b1'' ''b1''
      \<lparr>u_deviceId = None, u_auditoryId = Some ''a2'', u_endTime = None\<rparr> example_db1)) = 200 \<and>
   distinct (map booking_id (bookings example_db1)) \<and>
   snd (updateBooking example_env example_now ''/api/bookings/b1'' ''b1''
      \<lparr>u_deviceId = None, u_auditoryId = Some ''a2'', u_endTime = None\<rparr> example_db1) =
     example_db1\<lparr>bookings := [example_booking\<lparr>auditoryId := ''a2''\<rparr>]\<rparr>"
proof -
  let ?body = "\<lparr>u_deviceId = None, u_auditoryId = Some ''a2'', u_endTime = None\<rparr>"
  have h1: "code (fst (updateBooking example_env example_now ''/api/bookings/b1'' ''b1''
      ?body example_db1)) = 200"
    by (simp add: ex_defs handler_defs)
  have h2: "distinct (map booking_id (bookings example_db1))" by (simp add: ex_defs)
  have only: "bookings example_db1 = [example_booking]" by (simp add: ex_defs)
  from updateBooking_partial[OF h1 h2] obtain k bk' where all:
    "k < length (bookings example_db1) \<and> booking_id (bookings example_db1 ! k) = ''b1'' \<and>
     snd (updateBooking example_env example_now ''/api/bookings/b1'' ''b1'' ?body example_db1) =
       example_db1\<lparr>bookings := (bookings example_db1)[k := bk']\<rparr> \<and>
     booking_id bk' = ''b1'' \<and>
     startTime bk' = startTime (bookings example_db1 ! k) \<and>
     deviceId bk' = or_else (u_deviceId ?body) (deviceId (bookings example_db1 ! k)) \<and>
     auditoryId bk' = or_else (u_auditoryId ?body) (auditoryId (bookings example_db1 ! k)) \<and>
     (u_deviceId ?body = None \<longrightarrow> deviceId bk' = deviceId (bookings example_db1 ! k)) \<and>
     (u_auditoryId ?body = None \<longrightarrow> auditoryId bk' = auditoryId (bookings example_db1 ! k)) \<and>
     (u_endTime ?body = None \<longrightarrow> endTime bk' = endTime (bookings example_db1 ! k)) \<and>
     (\<forall>s. u_endTime ?body = Some s \<and> s \<noteq> [] \<longrightarrow> new_Date example_env s = Date (endTime bk'))"
    by (elim exE) (rule that)
  from all have k: "k < length (bookings example_db1)"
    and res: "snd (updateBooking example_env example_now ''/api/bookings/b1'' ''b1''
      ?body example_db1) = example_db1\<lparr>bookings := (bookings example_db1)[k := bk']\<rparr>"
    and f: "booking_id bk' = ''b1''" "startTime bk' = startTime (bookings example_db1 ! k)"
      "deviceId bk' = or_else (u_deviceId ?body) (deviceId (bookings example_db1 ! k))"
      "auditoryId bk' = or_else (u_auditoryId ?body) (auditoryId (bookings example_db1 ! k))"
      "u_endTime ?body = None \<longrightarrow> endTime bk' = endTime (bookings example_db1 ! k)"
    by simp_all
  from k have k0: "k = 0" by (simp add: only)
  from f have "bk' = example_booking\<lparr>auditoryId := ''a2''\<rparr>"
    unfolding k0 only by (simp add: example_booking_def or_else_def)
  with res k0 only have "snd (updateBooking example_env example_now ''/api/bookings/b1'' ''b1''
      ?body example_db1) = example_db1\<lparr>bookings := [example_booking\<lparr>auditoryId := ''a2''\<rparr>]\<rparr>"
    by simp
  with h1 h2 show ?thesis by blast
qed

text \<open>
  C9. \<open>PUT /api/devices/:id\<close> and \<open>PUT /api/auditories/:id\<close> with an id that no row has:
  the Prisma error carries no status code, so the error handler answers 500, not 404.
\<close>

theorem update_missing_row_is_500:
  "code (fst (updateDevice example_env ''/api/devices/nope'' ''nope''
                \<lparr>ud_name = Some ''beamer''\<rparr> example_db)) = 500 \<and>
   code (fst (updateAuditory example_env ''/api/auditories/nope'' ''nope''
                \<lparr>ua_name = Some ''103'', ua_capacity = None\<rparr> example_db)) = 500 \<and>
   device_findUnique example_db ''nope'' = None \<and>
   auditory_findUnique example_db ''nope'' = None"
  by (simp add: updateDevice_def updateAuditory_def device_update_def auditory_update_def
      device_findUnique_def auditory_findUnique_def example_db_def setErrorHandler_def
      prisma_throw_def)

text \<open>
  C10. In an \<open>Update\<close>, a field supplied as the empty string behaves exactly as the
  field left out, for each of \<open>deviceId\<close>, \<open>auditoryId\<close>, \<open>endTime\<close>; and a patch whose
  fields are all absent or empty, on an existing booking, succeeds with status 200 and
  leaves that booking as it was.
\<close>

theorem updateBooking_empty_string:
  "updateBooking e now url i (body\<lparr>u_deviceId := Some []\<rparr>) d =
     updateBooking e now url i (body\<lparr>u_deviceId := None\<rparr>) d \<and>
   updateBooking e now url i (body\<lparr>u_auditoryId := Some []\<rparr>) d =
     updateBooking e now url i (body\<lparr>u_auditoryId := None\<rparr>) d \<and>
   updateBooking e now url i (body\<lparr>u_endTime := Some []\<rparr>) d =
     updateBooking e now url i (body\<lparr>u_endTime := None\<rparr>) d \<and>
   (\<forall>bk. booking_findUnique d i = Some bk \<and>
         u_deviceId body \<in> {None, Some []} \<and> u_auditoryId body \<in> {None, Some []} \<and>
         u_endTime body \<in> {None, Some []} \<longrightarrow>
         fst (updateBooking e now url i body d) =
           \<lparr>code = 200, ctype = None,
            payload = BookingJson bk (device_findUnique d (deviceId bk))
                        (auditory_findUnique d (auditoryId bk))\<rparr> \<and>
         booking_findUnique (snd (updateBooking e now url i body d)) i = Some bk)"
proof (intro conjI allI impI)
  show "updateBooking e now url i (body\<lparr>u_deviceId := Some []\<rparr>) d =
     updateBooking e now url i (body\<lparr>u_deviceId := None\<rparr>) d"
    by (simp add: updateBooking_def rejects_endTime_def newEndAt_of_def Let_def
        cong: option.case_cong)
  show "updateBooking e now url i (body\<lparr>u_auditoryId := Some []\<rparr>) d =
     updateBooking e now url i (body\<lparr>u_auditoryId := None\<rparr>) d"
    by (simp add: updateBooking_def rejects_endTime_def newEndAt_of_def Let_def
        cong: option.case_cong)
  show "updateBooking e now url i (body\<lparr>u_endTime := Some []\<rparr>) d =
     updateBooking e now url i (body\<lparr>u_endTime := None\<rparr>) d"
    by (simp add: updateBooking_def rejects_endTime_def newEndAt_of_def Let_def
        cong: option.case_cong)
next
  fix bk
  assume a: "booking_findUnique d i = Some bk \<and>
         u_deviceId body \<in> {None, Some []} \<and> u_auditoryId body \<in> {None, Some []} \<and>
         u_endTime body \<in> {None, Some []}"
  then have t: "\<not> truthy (u_deviceId body)" "\<not> truthy (u_auditoryId body)"
    "\<not> truthy (u_endTime body)" "newEndAt_of e body = None"
    by (auto simp: newEndAt_of_def)
  from a have f: "find (\<lambda>b. booking_id b = i) (bookings d) = Some bk"
    by (simp add: booking_findUnique_def)
  show "fst (updateBooking e now url i body d) =
           \<lparr>code = 200, ctype = None,
            payload = BookingJson bk (device_findUnique d (deviceId bk))
                        (auditory_findUnique d (auditoryId bk))\<rparr>"
    using a t by (simp add: updateBooking_def rejects_endTime_def booking_update_def fk_ok_def)
  show "booking_findUnique (snd (updateBooking e now url i body d)) i = Some bk"
    using a t find_map_self[OF f]
    by (simp add: updateBooking_def rejects_endTime_def booking_update_def fk_ok_def
        booking_findUnique_def)
qed

text \<open>The theorem at a concrete request.\<close>

theorem updateBooking_empty_string_witness:
  "booking_findUnique example_db1 ''b1'' = Some example_booking \<and>
   fst (updateBooking example_env example_now ''/api/bookings/b1'' ''b1''
      \<lparr>u_deviceId = Some [], u_auditoryId = Some [], u_endTime = Some []\<rparr> example_db1) =
     \<lparr>code = 200, ctype = None,
      payload = BookingJson example_booking
        (device_findUnique example_db1 (deviceId example_booking))
        (auditory_findUnique example_db1 (auditoryId example_booking))\<rparr> \<and>
   booking_findUnique
     (snd (updateBooking example_env example_now ''/api/bookings/b1'' ''b1''
        \<lparr>u_deviceId = Some [], u_auditoryId = Some [], u_endTime = Some []\<rparr> example_db1))
     ''b1'' = Some example_booking \<and>
   updateBooking example_env example_now ''/api/bookings/b1'' ''b1''
      \<lparr>u_deviceId = Some [], u_auditoryId = Some ''a2'', u_endTime = None\<rparr> example_db1 =
   updateBooking example_env example_now ''/api/bookings/b1'' ''b1''
      \<lparr>u_deviceId = None, u_auditoryId = Some ''a2'', u_endTime = None\<rparr> example_db1"
proof -
  let ?body = "\<lparr>u_deviceId = Some [], u_auditoryId = Some [], u_endTime = Some []\<rparr>"
  let ?b2 = "\<lparr>u_deviceId = None, u_auditoryId = Some ''a2'', u_endTime = None\<rparr>"
  have h: "booking_findUnique example_db1 ''b1'' = Some example_booking"
    by (simp add: ex_defs booking_findUnique_def)
  have fields: "u_deviceId ?body \<in> {None, Some []} \<and> u_auditoryId ?body \<in> {None, Some []} \<and>
      u_endTime ?body \<in> {None, Some []}" by simp
  from updateBooking_empty_string[of example_env example_now "''/api/bookings/b1''" "''b1''"
      ?body example_db1] h fields
  have a: "fst (updateBooking example_env example_now ''/api/bookings/b1'' ''b1'' ?body example_db1) =
     \<lparr>code = 200, ctype = None,
      payload = BookingJson example_booking
        (device_findUnique example_db1 (deviceId example_booking))
        (auditory_findUnique example_db1 (auditoryId example_booking))\<rparr> \<and>
    booking_findUnique
     (snd (updateBooking example_env example_now ''/api/bookings/b1'' ''b1'' ?body example_db1))
     ''b1'' = Some example_booking" by blast
  from updateBooking_empty_string[of example_env example_now "''/api/bookings/b1''" "''b1''"
      ?b2 example_db1]
  have b: "updateBooking example_env example_now ''/api/bookings/b1'' ''b1''
      \<lparr>u_deviceId = Some [], u_auditoryId = Some ''a2'', u_endTime = None\<rparr> example_db1 =
   updateBooking example_env example_now ''/api/bookings/b1'' ''b1'' ?b2 example_db1"
    by simp
  from h a b show ?thesis by blast
qed

end
